theory Spec2Isabelle
  imports Complex_Main
begin

section \<open>Python values shared by the embedded modules\<close>

text \<open>
  Exceptions that the embedded functions can raise. \<open>UnknownDecoder\<close> stands for the
  plain \<open>Exception('decoder unknown for head names: ...')\<close> of the decoder factory and
  carries the offending head names.
\<close>

datatype py_error =
    AssertionError
  | NameError string
  | IndexError
  | UnknownDecoder "string list"

text \<open>
  Python floats that reach the decoder configuration come from \<open>argparse\<close> with
  \<open>type=float\<close>, so besides finite numbers they can be infinite or not-a-number.
  Only comparisons are performed on them; these follow IEEE 754: every comparison with
  a NaN is false.
\<close>

datatype pyfloat = Finite real | PosInf | NegInf | NaN

fun float_le :: "pyfloat \<Rightarrow> pyfloat \<Rightarrow> bool" where
  "float_le NaN _ = False"
| "float_le _ NaN = False"
| "float_le NegInf _ = True"
| "float_le _ PosInf = True"
| "float_le (Finite a) (Finite b) = (a \<le> b)"
| "float_le _ _ = False"

fun float_eq :: "pyfloat \<Rightarrow> pyfloat \<Rightarrow> bool" where
  "float_eq NaN _ = False"
| "float_eq _ NaN = False"
| "float_eq (Finite a) (Finite b) = (a = b)"
| "float_eq PosInf PosInf = True"
| "float_eq NegInf NegInf = True"
| "float_eq _ _ = False"

definition float_ge :: "pyfloat \<Rightarrow> pyfloat \<Rightarrow> bool" where
  "float_ge a b = float_le b a"

definition float_lt :: "pyfloat \<Rightarrow> pyfloat \<Rightarrow> bool" where
  "float_lt a b = (float_le a b \<and> \<not> float_eq a b)"

text \<open>
  List subscription \<open>xs[i]\<close>: a negative index counts from the end, anything outside
  \<open>-len(xs) .. len(xs) - 1\<close> raises \<open>IndexError\<close>.
\<close>

definition getitem :: "'a list \<Rightarrow> int \<Rightarrow> py_error + 'a" where
  "getitem xs i =
     (if 0 \<le> i \<and> i < int (length xs) then Inr (xs ! nat i)
      else if - int (length xs) \<le> i \<and> i < 0 then Inr (xs ! nat (int (length xs) + i))
      else Inl IndexError)"

text \<open>The indices at which \<open>xs[i]\<close> does not raise.\<close>

definition index_ok :: "'a list \<Rightarrow> int \<Rightarrow> bool" where
  "index_ok xs i = (- int (length xs) \<le> i \<and> i < int (length xs))"

section \<open>plugins/dental/constants.py\<close>

definition KEYPOINTS :: "string list" where
  "KEYPOINTS =
     [''cej_left'', ''cej_right'', ''aeac_left'', ''aeac_right'', ''apex_left'', ''apex_right'']"

definition SKELETON :: "(int \<times> int) list" where
  "SKELETON = [(1, 3), (3, 5), (2, 4), (4, 6)]"

text \<open>
  \<open>split, error = divmod(len(KEYPOINTS), 4)\<close> followed by the five repeated blocks.
  The construction is written for an arbitrary keypoint count \<open>n\<close>; the module uses it
  at \<open>len(KEYPOINTS)\<close>. A length is never negative, so \<open>divmod\<close> is \<open>div\<close> and \<open>mod\<close>
  on naturals.
\<close>

definition score_weights_for :: "nat \<Rightarrow> real list" where
  "score_weights_for n =
     (let split = n div 4; error = n mod 4
      in replicate split 10 @ replicate split 3 @ replicate split 1
         @ replicate split (1 / 10) @ replicate error (1 / 10))"

definition SCORE_WEIGHTS :: "real list" where
  "SCORE_WEIGHTS = score_weights_for (length KEYPOINTS)"

text \<open>The module-level \<open>assert len(SCORE_WEIGHTS) == len(KEYPOINTS)\<close>.\<close>

definition score_weights_assert :: "py_error + unit" where
  "score_weights_assert =
     (if length SCORE_WEIGHTS = length KEYPOINTS then Inr () else Inl AssertionError)"

text \<open>
  The dictionary literal \<open>HFLIP\<close>: entries are stored left to right, a repeated key
  would keep its last value.
\<close>

definition HFLIP :: "string \<rightharpoonup> string" where
  "HFLIP =
     [''cej_left'' \<mapsto> ''cej_right'',
      ''cej_right'' \<mapsto> ''cej_left'',
      ''aeac_left'' \<mapsto> ''aeac_right'',
      ''aeac_right'' \<mapsto> ''aeac_left'',
      ''apex_left'' \<mapsto> ''apex_right'',
      ''apex_right'' \<mapsto> ''apex_left'']"

text \<open>
  \<open>print_associations\<close>: standard output is the list of printed lines. The loop body
  reads \<open>KEYPOINTS[j1 - 1]\<close> and then \<open>KEYPOINTS[j2 - 1]\<close>; either read can raise, and
  then nothing more is printed. The loop is written over an arbitrary keypoint and
  edge list; the module runs it on its own constants.
\<close>

fun print_edges :: "string list \<Rightarrow> (int \<times> int) list \<Rightarrow> string list \<Rightarrow> py_error + string list" where
  "print_edges kps [] out = Inr out"
| "print_edges kps ((j1, j2) # es) out =
     (case getitem kps (j1 - 1) of
        Inl e \<Rightarrow> Inl e
      | Inr a \<Rightarrow>
          (case getitem kps (j2 - 1) of
             Inl e \<Rightarrow> Inl e
           | Inr b \<Rightarrow> print_edges kps es (out @ [a @ '' - '' @ b])))"

definition print_associations :: "py_error + string list" where
  "print_associations =
     print_edges KEYPOINTS SKELETON
       ['''', ''Associations of the tooth skeleton with 24 keypoints'']"

section \<open>decoder/factory.py\<close>

subsection \<open>Collaborators of the factory\<close>

type_synonym skeleton = "(int \<times> int) list"

text \<open>
  \<open>COCO_KEYPOINTS\<close>, \<open>COCO_PERSON_SKELETON\<close> and \<open>DENSER_COCO_PERSON_CONNECTIONS\<close> are
  imported from the data package, which is outside the embedded sources. The factory
  only copies, concatenates and iterates over them, so they are parameters.
\<close>

record data_constants =
  COCO_KEYPOINTS :: "string list"
  COCO_PERSON_SKELETON :: skeleton
  DENSER_COCO_PERSON_CONNECTIONS :: skeleton

text \<open>
  Visualizer objects are recorded by their constructor and its arguments:
  \<open>visualizer.Cif(head_name, stride=..., keypoints=..., skeleton=...)\<close> and so on.
\<close>

datatype visualizer =
    Seeds
  | CifHrVis "string list"
  | Occupancy "string list"
  | Cif string int "string list" skeleton
  | Caf string int "string list" skeleton

text \<open>
  The attributes of the parsed arguments that \<open>configure\<close> reads or writes.
  \<open>keypoint_threshold\<close> and \<open>decoder_workers\<close> default to \<open>None\<close>; \<open>batch_size\<close> is read
  with \<open>getattr(args, 'batch_size', 1)\<close>, where \<open>None\<close> here means the attribute is
  absent.
\<close>

record decoder_args =
  cif_th :: pyfloat
  seed_threshold :: pyfloat
  caf_th :: pyfloat
  keypoint_threshold :: "pyfloat option"
  force_complete_pose :: bool
  greedy :: bool
  connection_method :: string
  decoder_workers :: "int option"
  batch_size :: "int option"
  debug :: bool

text \<open>The class attributes that \<open>configure\<close> assigns (process-wide configuration).\<close>

record decoder_classes =
  CifHr_v_threshold :: pyfloat
  CifSeeds_threshold :: pyfloat
  CafScored_default_score_th :: pyfloat
  CifSeeds_debug_visualizer :: "visualizer option"
  CifHr_debug_visualizer :: "visualizer option"
  Processor_debug_visualizer :: "visualizer option"
  CifCaf_debug_visualizer :: "visualizer option"
  CifCaf_force_complete :: bool
  CifCaf_keypoint_threshold :: pyfloat
  CifCaf_greedy :: bool
  CifCaf_connection_method :: string

text \<open>
  An exception does not undo the assignments made before it, so both outcomes carry
  the arguments and the class attributes as they are when \<open>configure\<close> is left.
\<close>

datatype configure_result =
    is_Raised: Raised (raised_error: py_error) (args_after: decoder_args)
      (classes_after: decoder_classes)
  | is_Completed: Completed (args_after: decoder_args) (classes_after: decoder_classes)

subsection \<open>configure\<close>

text \<open>
  Lines 79-80: the value of \<open>args.keypoint_threshold\<close> after the default has been filled
  in.
\<close>

definition derived_keypoint_threshold :: "decoder_args \<Rightarrow> pyfloat" where
  "derived_keypoint_threshold args =
     (case keypoint_threshold args of
        None \<Rightarrow> (if \<not> force_complete_pose args then Finite (1 / 1000) else Finite 0)
      | Some v \<Rightarrow> v)"

definition configure :: "data_constants \<Rightarrow> decoder_args \<Rightarrow> decoder_classes \<Rightarrow> configure_result" where
  "configure D args cls =
     (let cls1 = cls\<lparr>CifHr_v_threshold := cif_th args,
                     CifSeeds_threshold := seed_threshold args,
                     CafScored_default_score_th := caf_th args,
                     CifSeeds_debug_visualizer := Some Seeds,
                     CifHr_debug_visualizer := Some (CifHrVis (COCO_KEYPOINTS D)),
                     Processor_debug_visualizer := Some (Occupancy (COCO_KEYPOINTS D)),
                     CifCaf_debug_visualizer := Some (Occupancy (COCO_KEYPOINTS D))\<rparr>;
          kp = derived_keypoint_threshold args;
          args1 = args\<lparr>keypoint_threshold := Some kp\<rparr>
      in if force_complete_pose args1 \<and> \<not> float_eq kp (Finite 0) then
           Raised AssertionError args1 cls1
         else if \<not> float_ge (seed_threshold args1) kp then
           Raised AssertionError args1 cls1
         else
           (let cls2 = cls1\<lparr>CifCaf_force_complete := force_complete_pose args1,
                            CifCaf_keypoint_threshold := kp,
                            CifCaf_greedy := greedy args1,
                            CifCaf_connection_method := connection_method args1\<rparr>;
                args2 =
                  (if decoder_workers args1 = None
                      \<and> (case batch_size args1 of None \<Rightarrow> 1 | Some b \<Rightarrow> b) > 1
                      \<and> \<not> debug args1
                   then args1\<lparr>decoder_workers := batch_size args1\<rparr>
                   else args1)
            in Completed args2 cls2))"

subsection \<open>factory_decode\<close>

record model =
  head_names :: "string list"
  head_strides :: "int list"

text \<open>
  The attributes of a \<open>FieldConfig\<close> object that the factory reads or assigns. The class
  itself, and with it the attribute values of a fresh \<open>FieldConfig()\<close>, is declared
  outside the embedded sources: the fresh object is a parameter of \<open>factory_decode\<close>.
\<close>

record FieldConfig =
  cif_indices :: "int list"
  caf_indices :: "int list"
  cif_strides :: "int list"
  caf_strides :: "int list"
  cif_min_scales :: "real list"
  caf_min_distances :: "real list"
  caf_max_distances :: "real option list"
  confidence_scales :: "pyfloat list option"
  cif_visualizers :: "visualizer list option"
  caf_visualizers :: "visualizer list option"

text \<open>The arguments with which \<open>generator.CifCaf(...)\<close> is constructed.\<close>

record 'k CifCaf =
  field_config :: FieldConfig
  keypoints :: "string list"
  skeleton :: skeleton
  out_skeleton :: skeleton
  kwargs :: 'k

text \<open>Sequencing of steps that can raise.\<close>

definition then_do :: "py_error + 'a \<Rightarrow> ('a \<Rightarrow> py_error + 'b) \<Rightarrow> py_error + 'b" where
  "then_do r f = (case r of Inl e \<Rightarrow> Inl e | Inr v \<Rightarrow> f v)"

text \<open>
  A list comprehension \<open>[f(x) for x in xs]\<close> whose element expression can raise: the
  elements are evaluated left to right and the first exception ends the comprehension.
\<close>

fun comprehension :: "('a \<Rightarrow> py_error + 'b) \<Rightarrow> 'a list \<Rightarrow> py_error + 'b list" where
  "comprehension f [] = Inr []"
| "comprehension f (x # xs) =
     (case f x of
        Inl e \<Rightarrow> Inl e
      | Inr y \<Rightarrow> (case comprehension f xs of Inl e \<Rightarrow> Inl e | Inr ys \<Rightarrow> Inr (y # ys)))"

text \<open>Lines 138-148, the body of \<open>if multi_scale:\<close>.\<close>

definition multi_scale_fields :: "model \<Rightarrow> bool \<Rightarrow> FieldConfig \<Rightarrow> py_error + FieldConfig" where
  "multi_scale_fields m dense_connections fc =
     (let fc1 =
            (if \<not> dense_connections then
               fc\<lparr>cif_indices := map (\<lambda>v. v * 3) [0..4],
                   caf_indices := map (\<lambda>v. v * 3 + 1) [0..4]\<rparr>
             else
               fc\<lparr>cif_indices := map (\<lambda>v. v * 2) [0..4],
                   caf_indices := map (\<lambda>v. v * 2 + 1) [0..4]\<rparr>)
      in then_do (comprehension (getitem (head_strides m)) (cif_indices fc1)) (\<lambda>cs.
         then_do (comprehension (getitem (head_strides m)) (caf_indices fc1)) (\<lambda>as.
         let fc2 = fc1\<lparr>cif_strides := cs, caf_strides := as,
                       cif_min_scales := [0, 12, 16, 24, 40]\<rparr>
         in Inr (fc2\<lparr>caf_min_distances := map (\<lambda>v. v * 3) (cif_min_scales fc2),
                      caf_max_distances := [Some 160, Some 240, Some 320, Some 480, None]\<rparr>))))"

text \<open>
  Lines 150-160, the body of \<open>if multi_scale and multi_scale_hflip:\<close>; \<open>xs *= 2\<close>
  appends a list to itself.
\<close>

definition hflip_fields :: "model \<Rightarrow> bool \<Rightarrow> FieldConfig \<Rightarrow> py_error + FieldConfig" where
  "hflip_fields m dense_connections fc =
     (let fc1 =
            (if \<not> dense_connections then
               fc\<lparr>cif_indices := map (\<lambda>v. v * 3) [0..9],
                   caf_indices := map (\<lambda>v. v * 3 + 1) [0..9]\<rparr>
             else
               fc\<lparr>cif_indices := map (\<lambda>v. v * 2) [0..9],
                   caf_indices := map (\<lambda>v. v * 2 + 1) [0..9]\<rparr>)
      in then_do (comprehension (getitem (head_strides m)) (cif_indices fc1)) (\<lambda>cs.
         then_do (comprehension (getitem (head_strides m)) (caf_indices fc1)) (\<lambda>as.
         Inr (fc1\<lparr>cif_strides := cs, caf_strides := as,
                  cif_min_scales := cif_min_scales fc1 @ cif_min_scales fc1,
                  caf_min_distances := caf_min_distances fc1 @ caf_min_distances fc1,
                  caf_max_distances := caf_max_distances fc1 @ caf_max_distances fc1\<rparr>))))"

text \<open>
  Lines 171-182. The element expression of \<open>cif_visualizers\<close> reads
  \<open>model.head_names[i]\<close> and \<open>field_config.cif_strides[i]\<close>, both with the head index
  \<open>i\<close>; that of \<open>caf_visualizers\<close> reads \<open>model.head_names[i]\<close> and uses the zipped
  \<open>stride\<close>.
\<close>

definition make_cif_visualizers ::
    "data_constants \<Rightarrow> model \<Rightarrow> skeleton \<Rightarrow> FieldConfig \<Rightarrow> py_error + visualizer list" where
  "make_cif_visualizers D m skel fc =
     comprehension
       (\<lambda>(i, stride).
          then_do (getitem (head_names m) i) (\<lambda>name.
          then_do (getitem (cif_strides fc) i) (\<lambda>s.
          Inr (Cif name s (COCO_KEYPOINTS D) skel))))
       (zip (cif_indices fc) (cif_strides fc))"

definition make_caf_visualizers ::
    "data_constants \<Rightarrow> model \<Rightarrow> skeleton \<Rightarrow> FieldConfig \<Rightarrow> py_error + visualizer list" where
  "make_caf_visualizers D m skel fc =
     comprehension
       (\<lambda>(i, stride).
          then_do (getitem (head_names m) i) (\<lambda>name.
          Inr (Caf name stride (COCO_KEYPOINTS D) skel)))
       (zip (caf_indices fc) (caf_strides fc))"

text \<open>
  \<open>factory_decode\<close>. The first branch calls \<open>CifDet\<close>, a name that the module neither
  imports nor defines: looking the name up raises \<open>NameError\<close> before any argument of
  the call is evaluated. \<open>fc0\<close> is the fresh \<open>FieldConfig()\<close>.
\<close>

definition factory_decode ::
    "data_constants \<Rightarrow> FieldConfig \<Rightarrow> model \<Rightarrow> pyfloat \<Rightarrow> bool \<Rightarrow> bool \<Rightarrow> bool \<Rightarrow> bool \<Rightarrow> 'k
     \<Rightarrow> py_error + 'k CifCaf" where
  "factory_decode D fc0 m dense_coupling dense_connections caf_seeds multi_scale
       multi_scale_hflip kw =
     (if caf_seeds then Inl AssertionError
      else if head_names m = [''cifdet''] then Inl (NameError ''CifDet'')
      else if head_names m = [''cif'', ''caf'', ''caf25''] then
        then_do (if multi_scale then multi_scale_fields m dense_connections fc0
                 else Inr fc0) (\<lambda>fc1.
        then_do (if multi_scale \<and> multi_scale_hflip then hflip_fields m dense_connections fc1
                 else Inr fc1) (\<lambda>fc2.
        let fc3 =
              (if dense_connections then
                 fc2\<lparr>confidence_scales :=
                       Some (map (\<lambda>_. Finite 1) (COCO_PERSON_SKELETON D)
                             @ map (\<lambda>_. dense_coupling) (DENSER_COCO_PERSON_CONNECTIONS D))\<rparr>
               else fc2);
            skel =
              (if dense_connections then
                 COCO_PERSON_SKELETON D @ DENSER_COCO_PERSON_CONNECTIONS D
               else COCO_PERSON_SKELETON D)
        in then_do (make_cif_visualizers D m skel fc3) (\<lambda>cv.
           let fc4 = fc3\<lparr>cif_visualizers := Some cv\<rparr>
           in then_do (make_caf_visualizers D m skel fc4) (\<lambda>av.
              let fc5 = fc4\<lparr>caf_visualizers := Some av\<rparr>
              in Inr \<lparr>field_config = fc5,
                      keypoints = COCO_KEYPOINTS D,
                      skeleton = skel,
                      out_skeleton = COCO_PERSON_SKELETON D,
                      kwargs = kw\<rparr>))))
      else Inl (UnknownDecoder (head_names m)))"

subsection \<open>Concrete values for instantiating the theorems\<close>

text \<open>
  A small person skeleton standing in for the imported constants, a single-scale
  \<open>FieldConfig()\<close> with one CIF/CAF pair at stride 8, the three-head model that the
  factory dispatches on, and class attributes before \<open>configure\<close> has run.
\<close>

definition example_data :: data_constants where
  "example_data =
     \<lparr>COCO_KEYPOINTS = [''nose'', ''left_eye'', ''right_eye'', ''left_ear''],
      COCO_PERSON_SKELETON = [(2, 3), (1, 2), (1, 3)],
      DENSER_COCO_PERSON_CONNECTIONS = [(2, 4), (3, 4)]\<rparr>"

definition example_field_config :: FieldConfig where
  "example_field_config =
     \<lparr>cif_indices = [0], caf_indices = [1], cif_strides = [8], caf_strides = [8],
      cif_min_scales = [0], caf_min_distances = [0], caf_max_distances = [None],
      confidence_scales = None, cif_visualizers = None, caf_visualizers = None\<rparr>"

definition example_model :: model where
  "example_model = \<lparr>head_names = [''cif'', ''caf'', ''caf25''], head_strides = [8, 8, 8]\<rparr>"

definition example_classes :: decoder_classes where
  "example_classes =
     \<lparr>CifHr_v_threshold = Finite (1 / 10),
      CifSeeds_threshold = Finite (1 / 5),
      CafScored_default_score_th = Finite (1 / 10),
      CifSeeds_debug_visualizer = None,
      CifHr_debug_visualizer = None,
      Processor_debug_visualizer = None,
      CifCaf_debug_visualizer = None,
      CifCaf_force_complete = False,
      CifCaf_keypoint_threshold = Finite 0,
      CifCaf_greedy = False,
      CifCaf_connection_method = ''blend''\<rparr>"

definition example_args :: decoder_args where
  "example_args =
     \<lparr>cif_th = Finite (1 / 10),
      seed_threshold = Finite (1 / 5),
      caf_th = Finite (1 / 10),
      keypoint_threshold = None,
      force_complete_pose = True,
      greedy = False,
      connection_method = ''blend'',
      decoder_workers = None,
      batch_size = Some 4,
      debug = False\<rparr>"

text \<open>
  Two variations of the arguments: a seed threshold below the derived keypoint
  threshold, with completion not forced; and debugging switched on.
\<close>

definition low_seed_args :: decoder_args where
  "low_seed_args = example_args\<lparr>force_complete_pose := False, seed_threshold := Finite 0\<rparr>"

definition debug_args :: decoder_args where
  "debug_args = example_args\<lparr>debug := True\<rparr>"

section \<open>Properties of the dental constants\<close>

lemma getitem_one_based:
  "1 \<le> j \<Longrightarrow> j \<le> int (length xs) \<Longrightarrow> getitem xs (j - 1) = Inr (xs ! nat (j - 1))"
  by (simp add: getitem_def)

lemma print_edges_in_bounds:
  "list_all (\<lambda>(j1, j2). 1 \<le> j1 \<and> j1 \<le> int (length kps) \<and> 1 \<le> j2 \<and> j2 \<le> int (length kps)) es
   \<Longrightarrow> \<exists>lines. print_edges kps es out = Inr lines"
proof (induction es arbitrary: out)
  case Nil
  show ?case by simp
next
  case (Cons e es)
  obtain j1 j2 where e: "e = (j1, j2)" by (cases e)
  from Cons.prems e have b: "1 \<le> j1" "j1 \<le> int (length kps)" "1 \<le> j2" "j2 \<le> int (length kps)"
    and rest: "list_all (\<lambda>(j1, j2). 1 \<le> j1 \<and> j1 \<le> int (length kps) \<and> 1 \<le> j2 \<and> j2 \<le> int (length kps)) es"
    by simp_all
  from Cons.IH [OF rest] show ?case
    by (simp add: e getitem_one_based b)
qed

text \<open>
  Claim C8. Every edge of the dental \<open>SKELETON\<close> is a pair of 1-based keypoint indices
  between 1 and \<open>len(KEYPOINTS)\<close>; hence every \<open>KEYPOINTS[j - 1]\<close> read of
  \<open>print_associations\<close> is in bounds and the function returns, having printed the
  header and one line per edge.
\<close>

theorem skeleton_indices_in_bounds:
  "(\<forall>(j1, j2) \<in> set SKELETON.
       1 \<le> j1 \<and> j1 \<le> int (length KEYPOINTS) \<and> 1 \<le> j2 \<and> j2 \<le> int (length KEYPOINTS))
   \<and> print_associations =
       Inr ['''', ''Associations of the tooth skeleton with 24 keypoints'',
            ''cej_left - aeac_left'', ''aeac_left - apex_left'',
            ''cej_right - aeac_right'', ''aeac_right - apex_right'']"
  by (simp add: SKELETON_def KEYPOINTS_def print_associations_def getitem_def)

theorem skeleton_indices_in_bounds_witness:
  "(3, 5) \<in> set SKELETON \<and> (1::int) \<le> 3 \<and> 3 \<le> int (length KEYPOINTS)
   \<and> (1::int) \<le> 5 \<and> 5 \<le> int (length KEYPOINTS)
   \<and> (\<exists>lines. print_associations = Inr lines)"
proof -
  from skeleton_indices_in_bounds
  have edges: "\<forall>(j1, j2) \<in> set SKELETON.
      1 \<le> j1 \<and> j1 \<le> int (length KEYPOINTS) \<and> 1 \<le> j2 \<and> j2 \<le> int (length KEYPOINTS)"
    by (rule conjunct1)
  from skeleton_indices_in_bounds
  have printed: "\<exists>lines. print_associations = Inr lines"
    by blast
  have mem: "(3, 5) \<in> set SKELETON" by (simp add: SKELETON_def)
  from edges mem have "(1::int) \<le> 3 \<and> 3 \<le> int (length KEYPOINTS)
      \<and> (1::int) \<le> 5 \<and> 5 \<le> int (length KEYPOINTS)"
    by fastforce
  with mem printed show ?thesis by simp
qed

text \<open>
  Claim C9. For any keypoint count \<open>n\<close>, the list built from \<open>divmod(n, 4)\<close> has exactly
  \<open>n\<close> entries, so the module-level length assertion holds; in particular it holds for
  the six dental keypoints.
\<close>

theorem score_weights_length:
  "length (score_weights_for n) = n
   \<and> length SCORE_WEIGHTS = length KEYPOINTS
   \<and> length KEYPOINTS = 6
   \<and> score_weights_assert = Inr ()"
proof -
  have len: "length (score_weights_for m) = m" for m
  proof -
    have parts: "m div 4 + (m div 4 + (m div 4 + (m div 4 + m mod 4))) = m"
      by presburger
    show ?thesis
      by (simp add: score_weights_for_def Let_def parts)
  qed
  have six: "length KEYPOINTS = 6" by (simp add: KEYPOINTS_def)
  have sw: "length SCORE_WEIGHTS = length KEYPOINTS"
    unfolding SCORE_WEIGHTS_def by (rule len)
  show ?thesis
    using len [of n] six sw by (simp add: score_weights_assert_def)
qed

text \<open>
  Claim C10. \<open>HFLIP\<close> is an involution on the keypoint names: each keypoint has an
  image, the image is a keypoint, flipping twice gives the name back, and the keys of
  \<open>HFLIP\<close> are exactly the keypoints.
\<close>

theorem hflip_involution:
  "(\<forall>k \<in> set KEYPOINTS. \<exists>v. HFLIP k = Some v \<and> v \<in> set KEYPOINTS \<and> HFLIP v = Some k)
   \<and> dom HFLIP = set KEYPOINTS"
  by (auto simp: HFLIP_def KEYPOINTS_def split: if_splits)

theorem hflip_involution_witness:
  "''aeac_left'' \<in> set KEYPOINTS
   \<and> HFLIP ''aeac_left'' = Some ''aeac_right''
   \<and> ''aeac_right'' \<in> set KEYPOINTS
   \<and> HFLIP ''aeac_right'' = Some ''aeac_left''
   \<and> ''tooth'' \<notin> dom HFLIP"
  using hflip_involution by (simp add: HFLIP_def KEYPOINTS_def)

section \<open>Properties of configure\<close>

lemma float_lt_not_ge: "float_lt a b \<Longrightarrow> \<not> float_ge a b"
  by (cases a; cases b; simp add: float_lt_def float_ge_def)

text \<open>
  Claim C1. \<open>configure\<close> raises (an \<open>AssertionError\<close>) whenever the seed threshold is
  below the keypoint threshold, or completion is forced and the keypoint threshold is
  not 0.0; when completion is forced only with keypoint threshold 0.0 and the seed
  threshold is at least the keypoint threshold, it completes. The keypoint threshold
  is the one in force at the check: the given value, or the derived default when none
  was given.
\<close>

theorem configure_consistency_check:
  "(float_lt (seed_threshold args) (derived_keypoint_threshold args)
      \<or> (force_complete_pose args \<and> \<not> float_eq (derived_keypoint_threshold args) (Finite 0))
    \<longrightarrow> (\<exists>a c. configure D args cls = Raised AssertionError a c))
   \<and> ((force_complete_pose args \<longrightarrow> float_eq (derived_keypoint_threshold args) (Finite 0))
       \<and> float_ge (seed_threshold args) (derived_keypoint_threshold args)
    \<longrightarrow> (\<exists>a c. configure D args cls = Completed a c))"
  by (auto simp: configure_def Let_def dest: float_lt_not_ge)

text \<open>
  Instances: a seed threshold 0 below the derived default 0.001 raises; forced
  completion with keypoint threshold 0.5 raises; the consistent arguments complete.
\<close>

theorem configure_consistency_check_witness:
  "(\<exists>a c. configure example_data low_seed_args example_classes = Raised AssertionError a c)
   \<and> (\<exists>a c. configure example_data (example_args\<lparr>keypoint_threshold := Some (Finite (1 / 2))\<rparr>)
               example_classes = Raised AssertionError a c)
   \<and> (\<exists>a c. configure example_data example_args example_classes = Completed a c)"
  using configure_consistency_check [of low_seed_args example_data example_classes]
    configure_consistency_check
      [of "example_args\<lparr>keypoint_threshold := Some (Finite (1 / 2))\<rparr>" example_data example_classes]
    configure_consistency_check [of example_args example_data example_classes]
  by (simp add: example_args_def low_seed_args_def derived_keypoint_threshold_def
      float_lt_def float_ge_def)

text \<open>
  Claim C4 as stated fails: with no keypoint threshold given, completion not forced and
  seed threshold 0, the default 0.001 is derived and written back to the arguments, but
  the consistency check then raises and the assembler's keypoint threshold is left as
  it was.
\<close>

theorem derived_threshold_not_installed:
  "keypoint_threshold low_seed_args = None
   \<and> \<not> force_complete_pose low_seed_args
   \<and> is_Raised (configure example_data low_seed_args example_classes)
   \<and> keypoint_threshold (args_after (configure example_data low_seed_args example_classes))
       = Some (Finite (1 / 1000))
   \<and> CifCaf_keypoint_threshold (classes_after (configure example_data low_seed_args example_classes))
       \<noteq> Finite (1 / 1000)"
  by (simp add: configure_def Let_def low_seed_args_def example_args_def example_classes_def
      derived_keypoint_threshold_def float_ge_def)

text \<open>
  Claim C4, amended. With no keypoint threshold given, \<open>configure\<close> derives 0.0 when
  completion is forced and 0.001 otherwise and writes it back to the arguments; when
  the seed threshold is at least the derived value, \<open>configure\<close> completes and the
  derived value is the assembler's keypoint threshold; otherwise \<open>configure\<close> raises
  and the assembler's keypoint threshold is unchanged.
\<close>

theorem derived_keypoint_threshold_installed:
  assumes "keypoint_threshold args = None"
  shows "derived_keypoint_threshold args
           = (if force_complete_pose args then Finite 0 else Finite (1 / 1000))
     \<and> keypoint_threshold (args_after (configure D args cls))
           = Some (derived_keypoint_threshold args)
     \<and> (float_ge (seed_threshold args) (derived_keypoint_threshold args)
          \<longrightarrow> is_Completed (configure D args cls)
              \<and> CifCaf_keypoint_threshold (classes_after (configure D args cls))
                  = derived_keypoint_threshold args)
     \<and> (\<not> float_ge (seed_threshold args) (derived_keypoint_threshold args)
          \<longrightarrow> is_Raised (configure D args cls)
              \<and> CifCaf_keypoint_threshold (classes_after (configure D args cls))
                  = CifCaf_keypoint_threshold cls)"
  using assms by (simp add: configure_def Let_def derived_keypoint_threshold_def)

text \<open>
  Instances: forced completion with seed threshold 0.2 installs 0.0; seed threshold 0
  without forced completion derives 0.001 and raises.
\<close>

theorem derived_keypoint_threshold_installed_witness:
  "keypoint_threshold example_args = None
   \<and> keypoint_threshold (args_after (configure example_data example_args example_classes))
        = Some (Finite 0)
   \<and> is_Completed (configure example_data example_args example_classes)
   \<and> CifCaf_keypoint_threshold (classes_after (configure example_data example_args example_classes))
        = Finite 0
   \<and> keypoint_threshold low_seed_args = None
   \<and> keypoint_threshold (args_after (configure example_data low_seed_args example_classes))
        = Some (Finite (1 / 1000))
   \<and> is_Raised (configure example_data low_seed_args example_classes)"
proof -
  have a: "keypoint_threshold example_args = None" by (simp add: example_args_def)
  have b: "keypoint_threshold low_seed_args = None"
    by (simp add: low_seed_args_def example_args_def)
  show ?thesis
    using a b derived_keypoint_threshold_installed [OF a, of example_data example_classes]
      derived_keypoint_threshold_installed [OF b, of example_data example_classes]
    by (simp add: example_args_def low_seed_args_def float_ge_def)
qed

text \<open>
  Claim C7 as stated fails: with no worker count given, batch size 4 and debugging on,
  \<open>configure\<close> completes and the worker count stays unset.
\<close>

theorem debug_keeps_workers_unset:
  "decoder_workers debug_args = None
   \<and> batch_size debug_args = Some 4
   \<and> is_Completed (configure example_data debug_args example_classes)
   \<and> decoder_workers (args_after (configure example_data debug_args example_classes)) \<noteq> Some 4"
  by (simp add: configure_def Let_def debug_args_def example_args_def example_classes_def
      derived_keypoint_threshold_def float_ge_def)

text \<open>
  Claim C7, amended. With no worker count given, the worker count after \<open>configure\<close>
  is the batch size exactly when \<open>configure\<close> completes, the batch size is greater than
  1 and debugging is off; otherwise it stays unset.
\<close>

theorem default_decoder_workers:
  assumes "decoder_workers args = None"
  shows "decoder_workers (args_after (configure D args cls))
     = (if is_Completed (configure D args cls)
           \<and> (case batch_size args of None \<Rightarrow> 1 | Some b \<Rightarrow> b) > 1
           \<and> \<not> debug args
        then batch_size args else None)"
  using assms by (simp add: configure_def Let_def)

text \<open>
  Instances: batch size 4 without debugging gives 4 workers; with debugging the worker
  count stays unset.
\<close>

theorem default_decoder_workers_witness:
  "decoder_workers example_args = None
   \<and> decoder_workers (args_after (configure example_data example_args example_classes)) = Some 4
   \<and> decoder_workers debug_args = None
   \<and> decoder_workers (args_after (configure example_data debug_args example_classes)) = None"
proof -
  have a: "decoder_workers example_args = None" by (simp add: example_args_def)
  have b: "decoder_workers debug_args = None" by (simp add: debug_args_def example_args_def)
  have c: "is_Completed (configure example_data example_args example_classes)"
    by (simp add: configure_def Let_def example_args_def derived_keypoint_threshold_def float_ge_def)
  show ?thesis
    using a b c default_decoder_workers [OF a, of example_data example_classes]
      default_decoder_workers [OF b, of example_data example_classes]
    by (simp add: example_args_def debug_args_def)
qed

section \<open>Properties of factory_decode\<close>

text \<open>
  Claim C2. For head names other than \<open>('cifdet',)\<close> and \<open>('cif', 'caf', 'caf25')\<close>,
  \<open>factory_decode\<close> raises and returns no decoder: the "decoder unknown" exception, or
  the assertion on \<open>caf_seeds\<close> before it.
\<close>

theorem unknown_head_names_raise:
  "head_names m \<noteq> [''cifdet''] \<Longrightarrow> head_names m \<noteq> [''cif'', ''caf'', ''caf25''] \<Longrightarrow>
   factory_decode D fc0 m dense_coupling dense_connections caf_seeds multi_scale multi_scale_hflip kw
     = Inl (if caf_seeds then AssertionError else UnknownDecoder (head_names m))"
  by (simp add: factory_decode_def)

text \<open>
  Instance: the head names \<open>('pif', 'paf')\<close>.
\<close>

theorem unknown_head_names_raise_witness:
  "factory_decode example_data example_field_config
     \<lparr>head_names = [''pif'', ''paf''], head_strides = [8, 8]\<rparr> (Finite 0) False False False True ()
   = Inl (UnknownDecoder [''pif'', ''paf''])"
  using unknown_head_names_raise
    [of "\<lparr>head_names = [''pif'', ''paf''], head_strides = [8, 8]\<rparr>" example_data
        example_field_config "Finite 0" False False False True "()"]
  by simp

text \<open>
  Claim C3 fails on the code: for the head names \<open>('cifdet',)\<close> the call of the unbound
  name \<open>CifDet\<close> raises \<open>NameError\<close>, whatever the other arguments are, so no detection
  decoder is returned.
\<close>

theorem cifdet_name_error:
  "factory_decode D fc0 \<lparr>head_names = [''cifdet''], head_strides = [8]\<rparr>
     dense_coupling dense_connections False multi_scale multi_scale_hflip kw
   = Inl (NameError ''CifDet'')"
  by (simp add: factory_decode_def)

subsection \<open>Multi-scale configuration\<close>

lemma comprehension_length:
  "comprehension f xs = Inr ys \<Longrightarrow> length ys = length xs"
  by (induction xs arbitrary: ys) (auto split: sum.splits)



lemma getitem_returns: "index_ok xs i \<Longrightarrow> \<exists>v. getitem xs i = Inr v"
  by (simp add: getitem_def index_ok_def)

lemma multi_scale_fields_Inr:
  assumes "multi_scale_fields m dense fc = Inr fc'"
  shows "cif_indices fc' = (if dense then [0, 2, 4, 6, 8] else [0, 3, 6, 9, 12])"
    and "caf_indices fc' = (if dense then [1, 3, 5, 7, 9] else [1, 4, 7, 10, 13])"
    and "length (cif_strides fc') = 5"
    and "length (caf_strides fc') = 5"
    and "cif_min_scales fc' = [0, 12, 16, 24, 40]"
    and "caf_min_distances fc' = [0, 36, 48, 72, 120]"
    and "caf_max_distances fc' = [Some 160, Some 240, Some 320, Some 480, None]"
    and "confidence_scales fc' = confidence_scales fc"
  using assms
  by (auto simp: multi_scale_fields_def then_do_def Let_def upto.simps
      split: sum.splits if_splits dest: comprehension_length)

lemma hflip_fields_Inr:
  assumes "hflip_fields m dense fc = Inr fc'"
  shows "cif_indices fc' = (if dense then [0, 2, 4, 6, 8, 10, 12, 14, 16, 18]
                            else [0, 3, 6, 9, 12, 15, 18, 21, 24, 27])"
    and "caf_indices fc' = (if dense then [1, 3, 5, 7, 9, 11, 13, 15, 17, 19]
                            else [1, 4, 7, 10, 13, 16, 19, 22, 25, 28])"
    and "length (cif_strides fc') = 10"
    and "length (caf_strides fc') = 10"
    and "cif_min_scales fc' = cif_min_scales fc @ cif_min_scales fc"
    and "caf_min_distances fc' = caf_min_distances fc @ caf_min_distances fc"
    and "caf_max_distances fc' = caf_max_distances fc @ caf_max_distances fc"
    and "confidence_scales fc' = confidence_scales fc"
  using assms
  by (auto simp: hflip_fields_def then_do_def Let_def upto.simps
      split: sum.splits if_splits dest: comprehension_length)

lemma cif_visualizers_sparse_raise:
  assumes "length (head_names m) = 3" and "cif_indices fc = 0 # 3 # rest"
    and "2 \<le> length (cif_strides fc)"
  shows "make_cif_visualizers D m skel fc = Inl IndexError"
proof -
  from assms(3) obtain a b cs where cs: "cif_strides fc = a # b # cs"
    by (cases "cif_strides fc"; cases "tl (cif_strides fc)") auto
  show ?thesis
    by (simp add: make_cif_visualizers_def assms(1,2) cs getitem_def then_do_def)
qed

lemma cif_visualizers_dense_raise:
  assumes "length (head_names m) = 3" and "cif_indices fc = 0 # 2 # 4 # rest"
    and "3 \<le> length (cif_strides fc)"
  shows "make_cif_visualizers D m skel fc = Inl IndexError"
proof -
  from assms(3) obtain a b c cs where cs: "cif_strides fc = a # b # c # cs"
    by (cases "cif_strides fc"; cases "tl (cif_strides fc)"; cases "tl (tl (cif_strides fc))") auto
  show ?thesis
    by (simp add: make_cif_visualizers_def assms(1,2) cs getitem_def then_do_def)
qed

lemma comprehension_getitem_error:
  "comprehension (getitem xs) idx = Inl e \<Longrightarrow> e = IndexError"
  by (induction idx) (auto simp: getitem_def split: sum.splits if_splits)

lemma multi_scale_fields_Inl: "multi_scale_fields m dense fc = Inl e \<Longrightarrow> e = IndexError"
  by (auto simp: multi_scale_fields_def then_do_def Let_def
      split: sum.splits if_splits dest: comprehension_getitem_error)

lemma hflip_fields_Inl: "hflip_fields m dense fc = Inl e \<Longrightarrow> e = IndexError"
  by (auto simp: hflip_fields_def then_do_def Let_def
      split: sum.splits if_splits dest: comprehension_getitem_error)

lemma multi_scale_index_error:
  assumes heads: "head_names m = [''cif'', ''caf'', ''caf25'']" and seeds: "\<not> caf_seeds"
  shows "factory_decode D fc0 m dense_coupling dense caf_seeds True hflip kw = Inl IndexError"
proof -
  have len: "length (head_names m) = 3" by (simp add: heads)
  show ?thesis
  proof (cases "multi_scale_fields m dense fc0")
    case (Inl e)
    with multi_scale_fields_Inl [OF Inl] show ?thesis
      by (simp add: factory_decode_def heads seeds then_do_def)
  next
    case (Inr fc1)
    note one = multi_scale_fields_Inr [OF Inr]
    show ?thesis
    proof (cases hflip)
      case False
      have "make_cif_visualizers D m skel (fc1\<lparr>confidence_scales := cf\<rparr>) = Inl IndexError"
        and "make_cif_visualizers D m skel fc1 = Inl IndexError" for skel cf
        using one(1,3) len
        by (cases dense; simp add: cif_visualizers_sparse_raise cif_visualizers_dense_raise)+
      then show ?thesis
        by (simp add: factory_decode_def heads seeds then_do_def Inr False Let_def)
    next
      case True
      show ?thesis
      proof (cases "hflip_fields m dense fc1")
        case (Inl e)
        with hflip_fields_Inl [OF Inl] show ?thesis
          by (simp add: factory_decode_def heads seeds then_do_def Inr True)
      next
        case fc2: (Inr fc2)
        note two = hflip_fields_Inr [OF fc2]
        have "make_cif_visualizers D m skel (fc2\<lparr>confidence_scales := cf\<rparr>) = Inl IndexError"
          and "make_cif_visualizers D m skel fc2 = Inl IndexError" for skel cf
          using two(1,3) len
          by (cases dense; simp add: cif_visualizers_sparse_raise cif_visualizers_dense_raise)+
        then show ?thesis
          by (simp add: factory_decode_def heads seeds then_do_def Inr True fc2 Let_def)
      qed
    qed
  qed
qed

lemma multi_scale_never_returns:
  "\<exists>e. factory_decode D fc0 m dense_coupling dense caf_seeds True hflip kw = Inl e"
proof (cases "\<not> caf_seeds \<and> head_names m = [''cif'', ''caf'', ''caf25'']")
  case False
  then show ?thesis by (auto simp: factory_decode_def)
next
  case True
  then show ?thesis by (simp add: multi_scale_index_error)
qed

text \<open>
  What lines 138-160 assign before the visualizers are built, when the stride lookups
  succeed: ten index pairs, and the five-scale bound lists appended to themselves.
\<close>

lemma hflip_configures_ten_pairs:
  assumes "multi_scale_fields m dense fc0 = Inr fc1" and "hflip_fields m dense fc1 = Inr fc2"
  shows "length (cif_indices fc2) = 10 \<and> length (caf_indices fc2) = 10
     \<and> cif_min_scales fc2 = cif_min_scales fc1 @ cif_min_scales fc1
     \<and> caf_min_distances fc2 = caf_min_distances fc1 @ caf_min_distances fc1
     \<and> caf_max_distances fc2 = caf_max_distances fc1 @ caf_max_distances fc1
     \<and> length (cif_min_scales fc1) = 5 \<and> length (caf_min_distances fc1) = 5
     \<and> length (caf_max_distances fc1) = 5"
  using multi_scale_fields_Inr [OF assms(1)] hflip_fields_Inr [OF assms(2)]
  by simp

text \<open>
  Claim C6 fails on the code: with \<open>multi_scale\<close> and \<open>multi_scale_hflip\<close> enabled,
  \<open>factory_decode\<close> raises \<open>IndexError\<close> and returns no decoder, both for a model with
  one stride per head (the lookup \<open>model.head_strides[3]\<close> fails) and for a model with
  thirty strides (building \<open>cif_visualizers\<close> fails).
\<close>

theorem multi_scale_hflip_raises:
  "factory_decode D fc0 \<lparr>head_names = [''cif'', ''caf'', ''caf25''], head_strides = [8, 8, 8]\<rparr>
      dense_coupling dense_connections False True True kw = Inl IndexError
   \<and> factory_decode D fc0
        \<lparr>head_names = [''cif'', ''caf'', ''caf25''], head_strides = replicate 30 8\<rparr>
        dense_coupling dense_connections False True True kw = Inl IndexError"
  by (simp add: multi_scale_index_error)

subsection \<open>Dense connections\<close>

lemma comprehension_returns_if:
  "list_all P xs \<Longrightarrow> (\<And>x. P x \<Longrightarrow> \<exists>y. f x = Inr y) \<Longrightarrow> \<exists>ys. comprehension f xs = Inr ys"
proof (induction xs)
  case Nil
  show ?case by simp
next
  case (Cons a xs)
  from Cons.prems have "P a" and rest: "list_all P xs" by simp_all
  from Cons.prems(2) [OF \<open>P a\<close>] obtain y where y: "f a = Inr y" by blast
  from Cons.IH [OF rest Cons.prems(2)] obtain ys where ys: "comprehension f xs = Inr ys"
    by blast
  show ?case by (simp add: y ys)
qed

lemma cif_visualizers_return:
  assumes "list_all (\<lambda>(i, stride). index_ok (head_names m) i \<and> index_ok (cif_strides fc) i)
             (zip (cif_indices fc) (cif_strides fc))"
  shows "\<exists>cv. make_cif_visualizers D m skel fc = Inr cv"
  unfolding make_cif_visualizers_def
  by (rule comprehension_returns_if [OF assms])
    (auto simp: then_do_def dest!: getitem_returns)

lemma caf_visualizers_return:
  assumes "list_all (\<lambda>(i, stride). index_ok (head_names m) i)
             (zip (caf_indices fc) (caf_strides fc))"
  shows "\<exists>av. make_caf_visualizers D m skel fc = Inr av"
  unfolding make_caf_visualizers_def
  by (rule comprehension_returns_if [OF assms])
    (auto simp: then_do_def dest!: getitem_returns)

text \<open>
  The single-scale configuration. For the head names \<open>('cif', 'caf', 'caf25')\<close>:
  whenever \<open>factory_decode\<close> returns, with \<open>dense_connections\<close> the assembler's skeleton
  is the person skeleton followed by the denser connections, its confidence scales are
  1.0 for every person-skeleton edge followed by \<open>dense_coupling\<close> for every denser
  connection, and its output skeleton is the person skeleton; without
  \<open>dense_connections\<close> the skeleton is the person skeleton and the confidence scales are
  those of the fresh \<open>FieldConfig()\<close>, untouched. Without \<open>multi_scale\<close> the call does
  return, provided the index pairs of the fresh \<open>FieldConfig()\<close> address existing heads
  and strides.
\<close>

theorem dense_connections_skeleton:
  assumes "head_names m = [''cif'', ''caf'', ''caf25'']" and "\<not> caf_seeds"
  shows "(\<forall>dec. factory_decode D fc0 m dense_coupling dense_connections caf_seeds multi_scale
                 multi_scale_hflip kw = Inr dec
            \<longrightarrow> skeleton dec =
                  (if dense_connections
                   then COCO_PERSON_SKELETON D @ DENSER_COCO_PERSON_CONNECTIONS D
                   else COCO_PERSON_SKELETON D)
                \<and> confidence_scales (field_config dec) =
                  (if dense_connections
                   then Some (replicate (length (COCO_PERSON_SKELETON D)) (Finite 1)
                              @ replicate (length (DENSER_COCO_PERSON_CONNECTIONS D)) dense_coupling)
                   else confidence_scales fc0)
                \<and> out_skeleton dec = COCO_PERSON_SKELETON D)
     \<and> (\<not> multi_scale
          \<and> list_all (\<lambda>(i, stride). index_ok (head_names m) i \<and> index_ok (cif_strides fc0) i)
                (zip (cif_indices fc0) (cif_strides fc0))
          \<and> list_all (\<lambda>(i, stride). index_ok (head_names m) i)
                (zip (caf_indices fc0) (caf_strides fc0))
         \<longrightarrow> (\<exists>dec. factory_decode D fc0 m dense_coupling dense_connections caf_seeds multi_scale
                 multi_scale_hflip kw = Inr dec))"
proof (intro conjI allI impI)
  fix dec
  assume ret: "factory_decode D fc0 m dense_coupling dense_connections caf_seeds multi_scale
                 multi_scale_hflip kw = Inr dec"
  have single: "\<not> multi_scale"
  proof
    assume multi_scale
    with ret multi_scale_index_error [OF assms, of D fc0 dense_coupling dense_connections
        multi_scale_hflip kw]
    show False by simp
  qed
  from ret single show "skeleton dec =
      (if dense_connections then COCO_PERSON_SKELETON D @ DENSER_COCO_PERSON_CONNECTIONS D
       else COCO_PERSON_SKELETON D)"
    by (auto simp: factory_decode_def assms then_do_def Let_def split: sum.splits if_splits)
  from ret single show "confidence_scales (field_config dec) =
      (if dense_connections
       then Some (replicate (length (COCO_PERSON_SKELETON D)) (Finite 1)
                  @ replicate (length (DENSER_COCO_PERSON_CONNECTIONS D)) dense_coupling)
       else confidence_scales fc0)"
    by (auto simp: factory_decode_def assms then_do_def Let_def map_replicate_const
        split: sum.splits if_splits)
  from ret single show "out_skeleton dec = COCO_PERSON_SKELETON D"
    by (auto simp: factory_decode_def assms then_do_def Let_def split: sum.splits if_splits)
next
  assume ok: "\<not> multi_scale
      \<and> list_all (\<lambda>(i, stride). index_ok (head_names m) i \<and> index_ok (cif_strides fc0) i)
            (zip (cif_indices fc0) (cif_strides fc0))
      \<and> list_all (\<lambda>(i, stride). index_ok (head_names m) i)
            (zip (caf_indices fc0) (caf_strides fc0))"
  let ?fc3 = "if dense_connections then
                 fc0\<lparr>confidence_scales :=
                       Some (map (\<lambda>_. Finite 1) (COCO_PERSON_SKELETON D)
                             @ map (\<lambda>_. dense_coupling) (DENSER_COCO_PERSON_CONNECTIONS D))\<rparr>
               else fc0"
  let ?skel = "if dense_connections then
                 COCO_PERSON_SKELETON D @ DENSER_COCO_PERSON_CONNECTIONS D
               else COCO_PERSON_SKELETON D"
  have "list_all (\<lambda>(i, stride). index_ok (head_names m) i \<and> index_ok (cif_strides ?fc3) i)
            (zip (cif_indices ?fc3) (cif_strides ?fc3))"
    using ok by simp
  from cif_visualizers_return [OF this]
  obtain cv where cv: "make_cif_visualizers D m ?skel ?fc3 = Inr cv" by blast
  have "list_all (\<lambda>(i, stride). index_ok (head_names m) i)
            (zip (caf_indices (?fc3\<lparr>cif_visualizers := Some cv\<rparr>))
                 (caf_strides (?fc3\<lparr>cif_visualizers := Some cv\<rparr>)))"
    using ok by simp
  from caf_visualizers_return [OF this]
  obtain av where av: "make_caf_visualizers D m ?skel (?fc3\<lparr>cif_visualizers := Some cv\<rparr>) = Inr av"
    by blast
  from ok cv av show "\<exists>dec. factory_decode D fc0 m dense_coupling dense_connections caf_seeds
      multi_scale multi_scale_hflip kw = Inr dec"
    by (simp add: factory_decode_def assms then_do_def Let_def)
qed

text \<open>
  Instance: three person-skeleton edges, two denser connections, coupling 0.01.
\<close>

theorem dense_connections_skeleton_witness:
  "\<exists>dec. factory_decode example_data example_field_config example_model (Finite (1 / 100))
            True False False True () = Inr dec
     \<and> skeleton dec = [(2, 3), (1, 2), (1, 3), (2, 4), (3, 4)]
     \<and> confidence_scales (field_config dec)
         = Some [Finite 1, Finite 1, Finite 1, Finite (1 / 100), Finite (1 / 100)]
     \<and> out_skeleton dec = [(2, 3), (1, 2), (1, 3)]"
proof -
  have heads: "head_names example_model = [''cif'', ''caf'', ''caf25'']"
    by (simp add: example_model_def)
  have ok: "\<not> False
      \<and> list_all (\<lambda>(i, stride). index_ok (head_names example_model) i
                      \<and> index_ok (cif_strides example_field_config) i)
            (zip (cif_indices example_field_config) (cif_strides example_field_config))
      \<and> list_all (\<lambda>(i, stride). index_ok (head_names example_model) i)
            (zip (caf_indices example_field_config) (caf_strides example_field_config))"
    by (simp add: example_model_def example_field_config_def index_ok_def)
  from dense_connections_skeleton [OF heads, of False example_data example_field_config
      "Finite (1 / 100)" True False True "()"] ok
  show ?thesis
    by (auto simp: example_data_def numeral_eq_Suc)
qed

text \<open>
  Claim C5 fails on the code: with \<open>dense_connections\<close> and \<open>multi_scale\<close> enabled, the
  configuration for which lines 141-143 and 153-155 select the dense head indices,
  \<open>factory_decode\<close> raises \<open>IndexError\<close> and builds no assembler, with or without
  \<open>multi_scale_hflip\<close>: for a model with one stride per head the lookup
  \<open>model.head_strides[2 * v]\<close> fails, for a model with thirty strides building
  \<open>cif_visualizers\<close> fails at \<open>model.head_names[4]\<close>. Neither the extended skeleton nor
  the confidence scales reach a decoder there.
\<close>

theorem dense_multi_scale_raises:
  "factory_decode D fc0 \<lparr>head_names = [''cif'', ''caf'', ''caf25''], head_strides = [8, 8, 8]\<rparr>
      dense_coupling True False True multi_scale_hflip kw = Inl IndexError
   \<and> factory_decode D fc0
        \<lparr>head_names = [''cif'', ''caf'', ''caf25''], head_strides = replicate 30 8\<rparr>
        dense_coupling True False True multi_scale_hflip kw = Inl IndexError"
  by (simp add: multi_scale_index_error)

end
